theory Spec2Isabelle
  imports Complex_Main
begin

section \<open>Vectors\<close>

text \<open>
  JavaScript numbers are modelled as reals: no rounding, no overflow. A real number is
  never NaN, so the two places where the program divides zero by zero are written out
  where they occur (\<open>getAvoidanceVector\<close> and \<open>getObstacleVector\<close>).
\<close>

datatype point = Point (px: real) (py: real)

text \<open>
  Modelled from the spec: the vector primitives of section 4.1 (the program takes them
  from the paper.js library, which is not part of the repository). \<open>normalize\<close> and
  \<open>setLength\<close> of a vector of length zero are the zero vector.
\<close>

definition zero_pt :: point where
  "zero_pt = Point 0 0"

definition add :: "point \<Rightarrow> point \<Rightarrow> point" where
  "add p q = Point (px p + px q) (py p + py q)"

definition subtract :: "point \<Rightarrow> point \<Rightarrow> point" where
  "subtract p q = Point (px p - px q) (py p - py q)"

definition multiply :: "point \<Rightarrow> real \<Rightarrow> point" where
  "multiply p k = Point (px p * k) (py p * k)"

text \<open>Only called with a divisor that is not zero.\<close>

definition divide_pt :: "point \<Rightarrow> real \<Rightarrow> point" where
  "divide_pt p k = Point (px p / k) (py p / k)"

definition dot :: "point \<Rightarrow> point \<Rightarrow> real" where
  "dot p q = px p * px q + py p * py q"

definition length_pt :: "point \<Rightarrow> real" where
  "length_pt p = sqrt (px p * px p + py p * py p)"

definition setLength :: "point \<Rightarrow> real \<Rightarrow> point" where
  "setLength p l = (if length_pt p = 0 then zero_pt else multiply p (l / length_pt p))"

definition normalize_pt :: "point \<Rightarrow> point" where
  "normalize_pt p = setLength p 1"

text \<open>
  Modelled from the spec: the heading of a vector (section 6), which paper.js gives in
  degrees, from \<open>Math.atan2\<close>.
\<close>

definition atan2 :: "real \<Rightarrow> real \<Rightarrow> real" where
  "atan2 b a =
     (if 0 < a then arctan (b / a)
      else if a < 0 \<and> 0 \<le> b then arctan (b / a) + pi
      else if a < 0 then arctan (b / a) - pi
      else if 0 < b then pi / 2
      else if b < 0 then - (pi / 2)
      else 0)"

definition angle :: "point \<Rightarrow> real" where
  "angle p = atan2 (py p) (px p) * 180 / pi"

section \<open>Boids and obstacles\<close>

record weights_rec =
  w_cohesion :: real
  w_avoidance :: real
  w_following :: real
  w_obstacles :: real

text \<open>A fill colour is a CSS string or an object with hue, saturation and lightness.\<close>

datatype color = Hex string | HSL (hue: real) (saturation: real) (lightness: real)

text \<open>
  \<open>position\<close>, \<open>rotation\<close> and \<open>fillColor\<close> are the fields of \<open>this.instance\<close>.
\<close>

record boid =
  velocity :: point
  position :: point
  rotation :: real
  fillColor :: color
  weights :: weights_rec
  followRadius :: real
  avoidRadius :: real
  maxSpeed :: real
  maxForce :: real

record obstacle =
  o_position :: point
  affectRadius :: real

text \<open>The path that a boid clones, and the radii object handed to the constructor.\<close>

record path_item =
  i_rotation :: real
  i_fillColor :: color

record perception_radii =
  pr_followRadius :: real
  pr_avoidRadius :: real

definition Boid :: "point \<Rightarrow> point \<Rightarrow> path_item \<Rightarrow> weights_rec \<Rightarrow> perception_radii \<Rightarrow> real \<Rightarrow> real \<Rightarrow> boid" where
  "Boid position0 velocity0 boidTemplate weights0 perceptionRadii maxSpeed0 maxForce0 =
     \<lparr>velocity = velocity0, position = position0,
      rotation = i_rotation boidTemplate, fillColor = i_fillColor boidTemplate,
      weights = weights0,
      followRadius = pr_followRadius perceptionRadii,
      avoidRadius = pr_avoidRadius perceptionRadii,
      maxSpeed = maxSpeed0, maxForce = maxForce0\<rparr>"

record view_size =
  width :: real
  height :: real

text \<open>
  The velocity of a boid becomes NaN when its avoidance vector is 0/0; the model stops
  there with this value.
\<close>

datatype nan_error = NaN_velocity

subsection \<open>Steering\<close>

definition getSteer :: "boid \<Rightarrow> point \<Rightarrow> point" where
  "getSteer this desired =
     (if length_pt desired = 0 then zero_pt
      else
        let desired' = setLength desired (maxSpeed this);
            steer = subtract desired' (velocity this)
        in if length_pt steer > maxForce this then setLength steer (maxForce this)
           else steer)"

subsection \<open>Cohesion\<close>

text \<open>
  The loops \<open>for (let i in boids)\<close> run over the indices of the array in order;
  \<open>this\<close> is the boid at index \<open>self\<close>, and \<open>boids[i] != this\<close> is \<open>i \<noteq> self\<close>.
\<close>

fun cohesionLoop :: "boid \<Rightarrow> boid list \<Rightarrow> nat list \<Rightarrow> point \<times> nat \<Rightarrow> point \<times> nat" where
  "cohesionLoop this boids [] (centerOfMass, numBoidsSeen) = (centerOfMass, numBoidsSeen)"
| "cohesionLoop this boids (i # is) (centerOfMass, numBoidsSeen) =
     (let displacement = subtract (position (boids ! i)) (position this)
      in if length_pt displacement < followRadius this
         then cohesionLoop this boids is
                (add centerOfMass (position (boids ! i)), numBoidsSeen + 1)
         else cohesionLoop this boids is (centerOfMass, numBoidsSeen))"

text \<open>The vector that \<open>getCohesionVector\<close> hands to \<open>getSteer\<close>.\<close>

definition cohesionDesired :: "nat \<Rightarrow> boid list \<Rightarrow> point" where
  "cohesionDesired self boids =
     (let this = boids ! self;
          (centerOfMass, numBoidsSeen) =
             cohesionLoop this boids [0..<length boids] (zero_pt, 0);
          centerOfMass' =
             (if numBoidsSeen > 0 then divide_pt centerOfMass (real numBoidsSeen)
              else centerOfMass)
      in subtract centerOfMass' (position this))"

definition getCohesionVector :: "nat \<Rightarrow> boid list \<Rightarrow> point" where
  "getCohesionVector self boids = getSteer (boids ! self) (cohesionDesired self boids)"

subsection \<open>Avoidance\<close>

text \<open>
  For another boid at the same position, \<open>displacement.normalize()\<close> is the zero vector
  and its division by \<open>displacement.length\<close> is 0/0: the avoidance vector is NaN from
  then on, and so is the velocity of the boid.
\<close>

fun avoidanceLoop :: "nat \<Rightarrow> boid \<Rightarrow> boid list \<Rightarrow> nat list \<Rightarrow> point \<Rightarrow> nan_error + point" where
  "avoidanceLoop self this boids [] avoidanceVector = Inr avoidanceVector"
| "avoidanceLoop self this boids (i # is) avoidanceVector =
     (let displacement = subtract (position (boids ! i)) (position this)
      in if i \<noteq> self \<and> length_pt displacement < avoidRadius this
         then (if length_pt displacement = 0 then Inl NaN_velocity
               else avoidanceLoop self this boids is
                      (subtract avoidanceVector
                         (divide_pt (normalize_pt displacement) (length_pt displacement))))
         else avoidanceLoop self this boids is avoidanceVector)"

definition getAvoidanceVector :: "nat \<Rightarrow> boid list \<Rightarrow> nan_error + point" where
  "getAvoidanceVector self boids =
     (let this = boids ! self
      in case avoidanceLoop self this boids [0..<length boids] zero_pt of
           Inl e \<Rightarrow> Inl e
         | Inr avoidanceVector \<Rightarrow> Inr (getSteer this avoidanceVector))"

subsection \<open>Following\<close>

text \<open>
  The result of \<open>avgVelocity.divide(numBoidsSeen)\<close> is not assigned: the vector handed
  to \<open>getSteer\<close> is the sum of the velocities.
\<close>

fun followLoop :: "nat \<Rightarrow> boid \<Rightarrow> boid list \<Rightarrow> nat list \<Rightarrow> point \<times> nat \<Rightarrow> point \<times> nat" where
  "followLoop self this boids [] (avgVelocity, numBoidsSeen) = (avgVelocity, numBoidsSeen)"
| "followLoop self this boids (i # is) (avgVelocity, numBoidsSeen) =
     (let displacement = subtract (position (boids ! i)) (position this)
      in if i \<noteq> self \<and> length_pt displacement < followRadius this
         then followLoop self this boids is
                (add avgVelocity (velocity (boids ! i)), numBoidsSeen + 1)
         else followLoop self this boids is (avgVelocity, numBoidsSeen))"

definition getFollowVector :: "nat \<Rightarrow> boid list \<Rightarrow> point" where
  "getFollowVector self boids =
     (let this = boids ! self;
          (avgVelocity, numBoidsSeen) =
             followLoop self this boids [0..<length boids] (zero_pt, 0)
      in getSteer this avgVelocity)"

subsection \<open>Obstacles\<close>

text \<open>The displacement to an obstacle and its part orthogonal to the velocity.\<close>

definition disp_of :: "boid \<Rightarrow> obstacle \<Rightarrow> point" where
  "disp_of this ob = subtract (o_position ob) (position this)"

definition perp_of :: "boid \<Rightarrow> obstacle \<Rightarrow> point" where
  "perp_of this ob =
     (let disp = disp_of this ob
      in subtract disp
           (multiply (velocity this)
              (dot disp (velocity this) /
                 (length_pt (velocity this) * length_pt (velocity this)))))"

text \<open>
  The test \<open>perp.length < obstacles[i].affectRadius\<close>. With a velocity of length zero
  the projection factor is 0/0, \<open>perp\<close> is NaN and the comparison is false: no obstacle
  is hit.
\<close>

definition hits :: "boid \<Rightarrow> obstacle \<Rightarrow> bool" where
  "hits this ob =
     (length_pt (velocity this) \<noteq> 0 \<and> length_pt (perp_of this ob) < affectRadius ob)"

fun obstacleLoop :: "boid \<Rightarrow> obstacle list \<Rightarrow> point \<times> real \<Rightarrow> point \<times> real" where
  "obstacleLoop this [] (obstacleVector, closestDist) = (obstacleVector, closestDist)"
| "obstacleLoop this (ob # obs) (obstacleVector, closestDist) =
     (let disp = disp_of this ob;
          perp = perp_of this ob
      in if hits this ob
         then (if length_pt disp < closestDist
               then obstacleLoop this obs (multiply perp (- 1), length_pt disp)
               else obstacleLoop this obs (obstacleVector, closestDist))
         else obstacleLoop this obs (obstacleVector, closestDist))"

definition getObstacleVector :: "boid \<Rightarrow> obstacle list \<Rightarrow> point" where
  "getObstacleVector this obstacles =
     (let (obstacleVector, closestDist) = obstacleLoop this obstacles (zero_pt, 99999999999)
      in if length_pt obstacleVector > 0 then normalize_pt obstacleVector
         else obstacleVector)"

subsection \<open>The velocity update\<close>

definition applyForce :: "boid \<Rightarrow> point \<Rightarrow> boid" where
  "applyForce this force = this\<lparr>velocity := add (velocity this) force\<rparr>"

text \<open>\<open>rnd\<close> is the value of \<open>Point.random()\<close>: both coordinates in [0, 1).\<close>

definition updateVelocity :: "nat \<Rightarrow> boid list \<Rightarrow> obstacle list \<Rightarrow> point \<Rightarrow> nan_error + boid" where
  "updateVelocity self boids obstacles rnd =
     (let this = boids ! self
      in case getAvoidanceVector self boids of
           Inl e \<Rightarrow> Inl e
         | Inr avoidanceVector \<Rightarrow>
             let cohesion = multiply (getCohesionVector self boids) (w_cohesion (weights this));
                 avoidance = multiply avoidanceVector (w_avoidance (weights this));
                 follow = multiply (getFollowVector self boids) (w_following (weights this));
                 obstacleVec =
                   multiply (getObstacleVector this obstacles) (w_obstacles (weights this));
                 noise = multiply (subtract rnd (Point 0.5 0.5)) (2 * 0.1);
                 this' = applyForce (applyForce (applyForce (applyForce (applyForce this
                           cohesion) avoidance) follow) obstacleVec) noise
             in Inr (if length_pt (velocity this') > maxSpeed this'
                     then this'\<lparr>velocity := setLength (velocity this') (maxSpeed this')\<rparr>
                     else this'))"

subsection \<open>Moving\<close>

definition checkBorders :: "view_size \<Rightarrow> point \<Rightarrow> point" where
  "checkBorders view p =
     Point (if px p > width view then 0 else if px p < 0 then width view else px p)
           (if py p > height view then 0 else if py p < 0 then height view else py p)"

definition update :: "view_size \<Rightarrow> boid \<Rightarrow> boid" where
  "update view this =
     this\<lparr>rotation := angle (velocity this),
          position := checkBorders view (add (position this) (velocity this)),
          fillColor := HSL (angle (velocity this)) 1 0.6\<rparr>"

section \<open>The frame handler\<close>

text \<open>
  \<open>rnd i\<close> is the random point drawn for boid \<open>i\<close> in this frame. Both loops of
  \<open>onFrame\<close> run over the indices of \<open>this.boids\<close> and write the boid back in place.
\<close>

fun reactLoop :: "nat list \<Rightarrow> boid list \<Rightarrow> obstacle list \<Rightarrow> (nat \<Rightarrow> point) \<Rightarrow> nan_error + boid list" where
  "reactLoop [] boids obstacles rnd = Inr boids"
| "reactLoop (i # is) boids obstacles rnd =
     (case updateVelocity i boids obstacles (rnd i) of
        Inl e \<Rightarrow> Inl e
      | Inr b \<Rightarrow> reactLoop is (boids[i := b]) obstacles rnd)"

fun updateLoop :: "view_size \<Rightarrow> nat list \<Rightarrow> boid list \<Rightarrow> boid list" where
  "updateLoop view [] boids = boids"
| "updateLoop view (i # is) boids = updateLoop view is (boids[i := update view (boids ! i)])"

definition onFrame :: "view_size \<Rightarrow> boid list \<Rightarrow> obstacle list \<Rightarrow> (nat \<Rightarrow> point) \<Rightarrow> nan_error + boid list" where
  "onFrame view boids obstacles rnd =
     (case reactLoop [0..<length boids] boids obstacles rnd of
        Inl e \<Rightarrow> Inl e
      | Inr boids' \<Rightarrow> Inr (updateLoop view [0..<length boids'] boids'))"

section \<open>Construction\<close>

record parameters =
  numBoids :: int
  p_maxSpeed :: real
  p_maxForce :: real
  p_obstacleAffectRadius :: real
  p_weights :: weights_rec
  p_perceptionRadii :: perception_radii

record runner =
  r_boids :: "boid list"
  r_obstacles :: "obstacle list"
  r_obstacleAffectRadius :: real

text \<open>
  The error that section 7 of the spec asks for. The constructor of \<open>Runner\<close> has no
  \<open>throw\<close> and no check of its parameters.
\<close>

datatype config_error = ConfigError

definition makeBoidPath :: "color \<Rightarrow> path_item" where
  "makeBoidPath boidColor = \<lparr>i_rotation = 0, i_fillColor = boidColor\<rparr>"

text \<open>
  \<open>rndPos i\<close> is the value of \<open>Point.random()\<close> and \<open>rndAngle i\<close> the value of
  \<open>Math.random()\<close> drawn for boid \<open>i\<close>. The loop
  \<open>for (var i = 0; i < this.numBoids; i++)\<close> runs \<open>nat numBoids\<close> times: not at all for
  a count that is zero or negative.
\<close>

definition Runner :: "parameters \<Rightarrow> view_size \<Rightarrow> (nat \<Rightarrow> point) \<Rightarrow> (nat \<Rightarrow> real) \<Rightarrow> config_error + runner" where
  "Runner params view rndPos rndAngle =
     (let boidTemplate = makeBoidPath (Hex ''#34c0eb'');
          defaultVelocity = 3
      in Inr \<lparr>r_boids =
                 map (\<lambda>i.
                        let newPosition =
                              Point (px (rndPos i) * width view) (py (rndPos i) * height view);
                            a = rndAngle i * 360;
                            newVelocity = Point (defaultVelocity * cos (a * pi / 180))
                                                (defaultVelocity * sin (a * pi / 180))
                        in Boid newPosition newVelocity boidTemplate (p_weights params)
                             (p_perceptionRadii params) (p_maxSpeed params) (p_maxForce params))
                   [0..<nat (numBoids params)],
               r_obstacles = [],
               r_obstacleAffectRadius = p_obstacleAffectRadius params\<rparr>)"

definition onMouseDown :: "runner \<Rightarrow> point \<Rightarrow> runner" where
  "onMouseDown r point0 =
     r\<lparr>r_obstacles := r_obstacles r @
          [\<lparr>o_position = point0, affectRadius = r_obstacleAffectRadius r\<rparr>]\<rparr>"

section \<open>The spec's words\<close>


text \<open>Section 4.2: the other agents strictly within a radius of an agent.\<close>

definition neighborsWithin :: "boid list \<Rightarrow> nat \<Rightarrow> real \<Rightarrow> nat list" where
  "neighborsWithin agents self radius =
     filter (\<lambda>i. i \<noteq> self \<and>
                 length_pt (subtract (position (agents ! i)) (position (agents ! self))) < radius)
       [0..<length agents]"

text \<open>The same without the exclusion of the agent itself, as cohesion has it.\<close>

definition seenWithin :: "boid list \<Rightarrow> nat \<Rightarrow> real \<Rightarrow> nat list" where
  "seenWithin agents self radius =
     filter (\<lambda>i. length_pt (subtract (position (agents ! i)) (position (agents ! self))) < radius)
       [0..<length agents]"

definition average :: "point list \<Rightarrow> point" where
  "average ps =
     (if ps = [] then zero_pt else divide_pt (foldl add zero_pt ps) (real (length ps)))"

text \<open>Section 4.3, following: steer toward the average velocity of the other agents in reach.\<close>

definition follow_spec :: "nat \<Rightarrow> boid list \<Rightarrow> point" where
  "follow_spec self boids =
     getSteer (boids ! self)
       (average (map (\<lambda>i. velocity (boids ! i))
                  (neighborsWithin boids self (followRadius (boids ! self)))))"

text \<open>
  Section 4.3, cohesion: steer toward the average position of the agents in reach; the
  desired vector is zero if there is none.
\<close>

definition cohesion_spec :: "nat \<Rightarrow> boid list \<Rightarrow> point" where
  "cohesion_spec self boids =
     (let this = boids ! self;
          seen = seenWithin boids self (followRadius this)
      in getSteer this
           (if seen = [] then zero_pt
            else subtract (average (map (\<lambda>i. position (boids ! i)) seen)) (position this)))"





text \<open>
  No boid has another boid at its own position within its avoidance radius: the states
  in which no avoidance vector is 0/0.
\<close>

definition nan_free :: "boid list \<Rightarrow> bool" where
  "nan_free boids =
     (\<forall>i < length boids. \<forall>j < length boids.
        j \<noteq> i \<and> position (boids ! j) = position (boids ! i) \<longrightarrow> avoidRadius (boids ! i) \<le> 0)"

section \<open>Example states\<close>

text \<open>The default parameters of \<open>window.onload\<close>.\<close>

definition defaultWeights :: weights_rec where
  "defaultWeights = \<lparr>w_cohesion = 1, w_avoidance = 4, w_following = 2, w_obstacles = 0.4\<rparr>"

definition defaultRadii :: perception_radii where
  "defaultRadii = \<lparr>pr_followRadius = 100, pr_avoidRadius = 30\<rparr>"

definition defaultParameters :: parameters where
  "defaultParameters =
     \<lparr>numBoids = 70, p_maxSpeed = 6, p_maxForce = 0.03, p_obstacleAffectRadius = 100,
      p_weights = defaultWeights, p_perceptionRadii = defaultRadii\<rparr>"

definition view0 :: view_size where
  "view0 = \<lparr>width = 800, height = 600\<rparr>"

text \<open>Random draws of one half in both coordinates: the noise is zero.\<close>

definition rnd0 :: "nat \<Rightarrow> point" where
  "rnd0 i = Point 0.5 0.5"

definition angle0 :: "nat \<Rightarrow> real" where
  "angle0 i = 0"

text \<open>Two boids five apart that only follow each other, with crossing velocities.\<close>

definition followOnly :: weights_rec where
  "followOnly = \<lparr>w_cohesion = 0, w_avoidance = 0, w_following = 1, w_obstacles = 0\<rparr>"

definition follower :: "point \<Rightarrow> point \<Rightarrow> boid" where
  "follower p v =
     Boid p v (makeBoidPath (Hex ''#34c0eb'')) followOnly
       \<lparr>pr_followRadius = 10, pr_avoidRadius = 1\<rparr> 5 100"

definition pair0 :: "boid list" where
  "pair0 = [follower (Point 0 0) (Point 5 0), follower (Point 3 4) (Point 0 5)]"

text \<open>A boid with the default parameters.\<close>

definition defaultBoid :: "point \<Rightarrow> point \<Rightarrow> boid" where
  "defaultBoid p v =
     Boid p v (makeBoidPath (Hex ''#34c0eb'')) defaultWeights defaultRadii 6 0.03"

text \<open>A boid about to leave the view on the left.\<close>

definition leaving :: boid where
  "leaving = defaultBoid (Point 1 10) (Point (- 6) 0)"

text \<open>A single boid whose follow radius has been set to zero.\<close>

definition lone :: boid where
  "lone = Boid (Point 6 0) (Point 3 0) (makeBoidPath (Hex ''#34c0eb'')) defaultWeights
            \<lparr>pr_followRadius = 0, pr_avoidRadius = 30\<rparr> 6 0.03"

text \<open>A boid at the origin flying along the x axis, and obstacles beside its path.\<close>

definition flyer :: boid where
  "flyer = defaultBoid (Point 0 0) (Point 1 0)"

definition nearObstacles :: "obstacle list" where
  "nearObstacles =
     [\<lparr>o_position = Point 10 3, affectRadius = 100\<rparr>,
      \<lparr>o_position = Point 5 (- 2), affectRadius = 100\<rparr>]"

definition farObstacle :: obstacle where
  "farObstacle = \<lparr>o_position = Point 100000000000 1, affectRadius = 100\<rparr>"

text \<open>Parameters with a negative count and negative radii.\<close>

definition negativeParameters :: parameters where
  "negativeParameters =
     \<lparr>numBoids = - 1, p_maxSpeed = 6, p_maxForce = 0.03, p_obstacleAffectRadius = - 100,
      p_weights = defaultWeights,
      p_perceptionRadii = \<lparr>pr_followRadius = - 100, pr_avoidRadius = - 30\<rparr>\<rparr>"

section \<open>Facts about vectors\<close>

lemma length_pt_nonneg: "0 \<le> length_pt p"
  by (simp add: length_pt_def)

lemma length_pt_zero_iff: "length_pt p = 0 \<longleftrightarrow> p = zero_pt"
proof -
  have "px p * px p + py p * py p = 0 \<longleftrightarrow> px p = 0 \<and> py p = 0"
    by (rule sum_squares_eq_zero_iff)
  then show ?thesis
    by (cases p) (simp add: length_pt_def zero_pt_def)
qed


lemma length_pt_multiply: "length_pt (multiply p k) = \<bar>k\<bar> * length_pt p"
proof -
  have "px p * k * (px p * k) + py p * k * (py p * k) = (k * k) * (px p * px p + py p * py p)"
    by (simp add: algebra_simps)
  then show ?thesis
    by (simp add: length_pt_def multiply_def real_sqrt_mult)
qed




lemma subtract_zero_iff: "subtract p q = zero_pt \<longleftrightarrow> p = q"
  by (cases p, cases q) (simp add: subtract_def zero_pt_def)

text \<open>Comparisons of lengths without square roots, for evaluation.\<close>

lemma length_pt_lt_iff: "length_pt p < r \<longleftrightarrow> 0 < r \<and> px p * px p + py p * py p < r * r"
proof (cases "0 < r")
  case True
  have "sqrt (px p * px p + py p * py p) < sqrt (r * r) \<longleftrightarrow> px p * px p + py p * py p < r * r"
    by (rule real_sqrt_less_iff)
  then show ?thesis using True by (simp add: length_pt_def)
next
  case False
  then show ?thesis using length_pt_nonneg [of p] by auto
qed

lemma length_pt_gt_iff: "r < length_pt p \<longleftrightarrow> r < 0 \<or> r * r < px p * px p + py p * py p"
proof (cases "0 \<le> r")
  case True
  have "sqrt (r * r) < sqrt (px p * px p + py p * py p) \<longleftrightarrow> r * r < px p * px p + py p * py p"
    by (rule real_sqrt_less_iff)
  then show ?thesis using True by (simp add: length_pt_def)
next
  case False
  then show ?thesis using length_pt_nonneg [of p] by auto
qed


lemma length_pt_axis: "length_pt (Point 0 b) = \<bar>b\<bar>" "length_pt (Point a 0) = \<bar>a\<bar>"
  by (simp_all add: length_pt_def)

lemmas vec_simps = add_def subtract_def multiply_def divide_pt_def dot_def zero_pt_def
  setLength_def normalize_pt_def length_pt_lt_iff length_pt_gt_iff length_pt_zero_iff
  length_pt_axis

lemmas example_simps = Boid_def makeBoidPath_def follower_def followOnly_def pair0_def
  defaultBoid_def defaultWeights_def defaultRadii_def leaving_def lone_def flyer_def
  nearObstacles_def farObstacle_def view0_def rnd0_def

section \<open>Steering\<close>



section \<open>Moving a boid\<close>


lemma update_velocity [simp]: "velocity (update view this) = velocity this"
  by (simp add: update_def)

lemma update_maxSpeed [simp]: "maxSpeed (update view this) = maxSpeed this"
  by (simp add: update_def)


lemma updateLoop_nth:
  "distinct is \<Longrightarrow> length (updateLoop view is bs) = length bs \<and>
     (\<forall>j < length bs.
        updateLoop view is bs ! j = (if j \<in> set is then update view (bs ! j) else bs ! j))"
proof (induction "is" arbitrary: bs)
  case Nil
  then show ?case by simp
next
  case (Cons i "is")
  then have d: "distinct is" and ni: "i \<notin> set is" by simp_all
  have "j \<in> set is \<Longrightarrow> bs[i := update view (bs ! i)] ! j = bs ! j" for j
    using ni by (cases "j = i") simp_all
  then show ?case
    using Cons.IH [OF d, of "bs[i := update view (bs ! i)]"] ni
    by (auto simp add: nth_list_update)
qed

lemma updateLoop_map: "updateLoop view [0..<length bs] bs = map (update view) bs"
  by (rule nth_equalityI) (simp_all add: updateLoop_nth)

text \<open>
  C4. In a view whose width and height are not negative, a coordinate beyond the upper
  bound is set to 0 and a coordinate below 0 is set to the upper bound; a coordinate from
  0 to the upper bound, the bound included, stays. A boid at \<open>(width, 10)\<close> keeps
  \<open>x = width\<close>, and a boid at \<open>(-5, 10)\<close> gets \<open>x = width\<close>.
\<close>

theorem checkBorders_wrap:
  assumes "0 \<le> width view" and "0 \<le> height view"
  shows "px (checkBorders view (Point (width view) 10)) = width view \<and>
         px (checkBorders view (Point (- 5) 10)) = width view \<and>
         (width view < a \<longrightarrow> px (checkBorders view (Point a b)) = 0) \<and>
         (a < 0 \<longrightarrow> px (checkBorders view (Point a b)) = width view) \<and>
         (0 \<le> a \<and> a \<le> width view \<longrightarrow> px (checkBorders view (Point a b)) = a) \<and>
         (height view < b \<longrightarrow> py (checkBorders view (Point a b)) = 0) \<and>
         (b < 0 \<longrightarrow> py (checkBorders view (Point a b)) = height view) \<and>
         (0 \<le> b \<and> b \<le> height view \<longrightarrow> py (checkBorders view (Point a b)) = b)"
  using assms by (simp add: checkBorders_def)

theorem checkBorders_wrap_witness:
  "0 \<le> width view0 \<and> 0 \<le> height view0 \<and>
   px (checkBorders view0 (Point 800 10)) = 800 \<and>
   px (checkBorders view0 (Point (- 5) 10)) = 800 \<and>
   px (checkBorders view0 (Point 801 (- 1))) = 0 \<and>
   py (checkBorders view0 (Point 801 (- 1))) = 600"
  using checkBorders_wrap [of view0 801 "- 1"] by (simp add: view0_def)

theorem checkBorders_at_width_stays:
  "px (checkBorders view0 (Point (width view0) 10)) \<noteq> 0"
  by (simp add: checkBorders_def view0_def)

text \<open>
  C10. \<open>update\<close> changes the position, the rotation and the fill colour of a boid and
  nothing else: the velocity and \<open>maxSpeed\<close> of every boid are the same before and after
  the second loop of the frame handler.
\<close>

theorem update_keeps_velocity:
  "velocity (update view this) = velocity this \<and>
   maxSpeed (update view this) = maxSpeed this \<and>
   update view this =
     this\<lparr>rotation := rotation (update view this),
          position := position (update view this),
          fillColor := fillColor (update view this)\<rparr> \<and>
   map velocity (updateLoop view [0..<length boids] boids) = map velocity boids \<and>
   map maxSpeed (updateLoop view [0..<length boids] boids) = map maxSpeed boids"
  by (simp add: updateLoop_map) (simp add: update_def)

section \<open>Following and cohesion\<close>

lemma followLoop_eq:
  "followLoop self this boids is (acc, n) =
     (foldl add acc (map (\<lambda>i. velocity (boids ! i))
        (filter (\<lambda>i. i \<noteq> self \<and>
            length_pt (subtract (position (boids ! i)) (position this)) < followRadius this) is)),
      n + length (filter (\<lambda>i. i \<noteq> self \<and>
            length_pt (subtract (position (boids ! i)) (position this)) < followRadius this) is))"
  by (induction "is" arbitrary: acc n) (simp_all add: Let_def)

lemma cohesionLoop_eq:
  "cohesionLoop this boids is (acc, n) =
     (foldl add acc (map (\<lambda>i. position (boids ! i))
        (filter (\<lambda>i. length_pt (subtract (position (boids ! i)) (position this))
                      < followRadius this) is)),
      n + length (filter (\<lambda>i. length_pt (subtract (position (boids ! i)) (position this))
                      < followRadius this) is))"
  by (induction "is" arbitrary: acc n) (simp_all add: Let_def)

text \<open>\<open>getSteer\<close> sets the length of its argument: a positive factor does not matter.\<close>

lemma divide_pt_zero_iff: "0 < k \<Longrightarrow> divide_pt v k = zero_pt \<longleftrightarrow> v = zero_pt"
  by (cases v) (simp add: divide_pt_def zero_pt_def)

lemma length_pt_divide_pt: "0 < k \<Longrightarrow> length_pt (divide_pt v k) = length_pt v / k"
proof -
  assume k: "0 < k"
  have "divide_pt v k = multiply v (1 / k)" by (simp add: divide_pt_def multiply_def)
  then show ?thesis using k by (simp add: length_pt_multiply)
qed

lemma setLength_divide_pt: "0 < k \<Longrightarrow> setLength (divide_pt v k) l = setLength v l"
proof (cases "v = zero_pt")
  case True
  then show ?thesis by (simp add: setLength_def divide_pt_def zero_pt_def length_pt_def)
next
  case False
  assume k: "0 < k"
  have len: "length_pt v \<noteq> 0" using False by (simp add: length_pt_zero_iff)
  have "length_pt (divide_pt v k) \<noteq> 0"
    using k False by (simp add: length_pt_zero_iff divide_pt_zero_iff)
  then show ?thesis using k len
    by (simp add: setLength_def length_pt_divide_pt) (simp add: divide_pt_def multiply_def)
qed

lemma getSteer_divide_pt: "0 < k \<Longrightarrow> getSteer this (divide_pt v k) = getSteer this v"
  by (simp add: getSteer_def setLength_divide_pt length_pt_zero_iff divide_pt_zero_iff)

text \<open>
  C7. The follow vector is \<open>getSteer\<close> of the average velocity of the other boids whose
  distance is smaller than \<open>followRadius\<close>, and the zero vector if there is none. (The
  program hands the sum of these velocities to \<open>getSteer\<close>, which gives the same.)
\<close>

theorem getFollowVector_spec:
  "getFollowVector self boids = follow_spec self boids \<and>
   (neighborsWithin boids self (followRadius (boids ! self)) = [] \<longrightarrow>
      getFollowVector self boids = zero_pt)"
proof -
  let ?ns = "neighborsWithin boids self (followRadius (boids ! self))"
  let ?vs = "map (\<lambda>i. velocity (boids ! i)) ?ns"
  have code: "getFollowVector self boids = getSteer (boids ! self) (foldl add zero_pt ?vs)"
    by (simp add: getFollowVector_def followLoop_eq neighborsWithin_def Let_def)
  have "getSteer (boids ! self) (average ?vs) = getSteer (boids ! self) (foldl add zero_pt ?vs)"
  proof (cases "?vs = []")
    case True
    then show ?thesis by (simp add: average_def)
  next
    case False
    then have "0 < real (length ?vs)" by simp
    then show ?thesis using False by (simp add: average_def getSteer_divide_pt del: length_map)
  qed
  then have "getFollowVector self boids = follow_spec self boids"
    by (simp add: code follow_spec_def)
  moreover have "?ns = [] \<longrightarrow> getFollowVector self boids = zero_pt"
    by (simp add: code getSteer_def length_pt_zero_iff)
  ultimately show ?thesis by simp
qed

theorem getFollowVector_spec_witness:
  "neighborsWithin [lone] 0 (followRadius ([lone] ! 0)) = [] \<and>
   getFollowVector 0 [lone] = zero_pt \<and>
   getFollowVector 0 pair0 = follow_spec 0 pair0 \<and>
   getFollowVector 0 pair0 = Point (- 5) 5"
proof -
  have n: "neighborsWithin [lone] 0 (followRadius ([lone] ! 0)) = []"
    by (simp add: neighborsWithin_def)
  have v: "getFollowVector 0 pair0 = Point (- 5) 5"
    by (simp add: getFollowVector_def getSteer_def Let_def example_simps vec_simps)
  have z: "getFollowVector 0 [lone] = zero_pt"
    using getFollowVector_spec [of 0 "[lone]"] n by blast
  have e: "getFollowVector 0 pair0 = follow_spec 0 pair0"
    using getFollowVector_spec [of 0 pair0] by blast
  show ?thesis using n z e v by blast
qed

text \<open>
  With at least one boid in reach (the boid itself counts), the cohesion vector is
  \<open>getSteer\<close> of the average position in reach minus the own position.
\<close>

lemma getCohesionVector_seen:
  "seenWithin boids self (followRadius (boids ! self)) \<noteq> [] \<Longrightarrow>
     getCohesionVector self boids = cohesion_spec self boids"
  by (simp add: getCohesionVector_def cohesionDesired_def cohesionLoop_eq cohesion_spec_def
      seenWithin_def average_def Let_def)

lemma cohesionDesired_none_seen:
  "seenWithin boids self (followRadius (boids ! self)) = [] \<Longrightarrow>
     cohesionDesired self boids = subtract zero_pt (position (boids ! self))"
  by (simp add: cohesionDesired_def cohesionLoop_eq seenWithin_def Let_def)

text \<open>
  C6. With no boid in reach the centre of mass stays at the origin, and the vector handed
  to \<open>getSteer\<close> is the negated position instead of the zero vector: a single boid at
  \<open>(6, 0)\<close> with a follow radius of zero is steered toward the origin.
\<close>

theorem getCohesionVector_none_seen:
  "seenWithin [lone] 0 (followRadius ([lone] ! 0)) = [] \<and>
   cohesionDesired 0 [lone] = Point (- 6) 0 \<and>
   getCohesionVector 0 [lone] = Point (- (3 / 100)) 0 \<and>
   cohesion_spec 0 [lone] = Point 0 0"
proof -
  have s: "seenWithin [lone] 0 (followRadius ([lone] ! 0)) = []"
    by (simp add: seenWithin_def example_simps vec_simps)
  have d: "cohesionDesired 0 [lone] = Point (- 6) 0"
    by (simp add: cohesionDesired_def Let_def example_simps vec_simps)
  have "getCohesionVector 0 [lone] = Point (- (3 / 100)) 0"
    unfolding getCohesionVector_def d
    by (simp add: getSteer_def Let_def example_simps vec_simps)
  moreover have "cohesion_spec 0 [lone] = Point 0 0"
    using s by (simp add: cohesion_spec_def getSteer_def Let_def vec_simps)
  ultimately show ?thesis using s d by simp
qed

section \<open>Obstacles\<close>











section \<open>The velocity update\<close>

lemma updateVelocity_frame:
  "updateVelocity i bs obs r = Inr b \<Longrightarrow> b = (bs ! i)\<lparr>velocity := velocity b\<rparr>"
  by (auto simp add: updateVelocity_def applyForce_def Let_def split: sum.splits if_splits)

lemma updateVelocity_position:
  "updateVelocity i bs obs r = Inr b \<Longrightarrow> position b = position (bs ! i)"
  by (auto simp add: updateVelocity_def applyForce_def Let_def split: sum.splits if_splits)

lemma updateVelocity_avoidRadius:
  "updateVelocity i bs obs r = Inr b \<Longrightarrow> avoidRadius b = avoidRadius (bs ! i)"
  by (auto simp add: updateVelocity_def applyForce_def Let_def split: sum.splits if_splits)





section \<open>The two loops of the frame handler\<close>






text \<open>Conversely, a boid with another boid at its own position in reach gives NaN.\<close>

lemma avoidanceLoop_Inl:
  "\<exists>j \<in> set is. j \<noteq> self \<and> position (boids ! j) = position this \<Longrightarrow>
     0 < avoidRadius this \<Longrightarrow> avoidanceLoop self this boids is acc = Inl NaN_velocity"
proof (induction "is" arbitrary: acc)
  case Nil
  then show ?case by simp
next
  case (Cons i "is")
  let ?d = "subtract (position (boids ! i)) (position this)"
  show ?case
  proof (cases "i \<noteq> self \<and> position (boids ! i) = position this")
    case True
    then have "?d = zero_pt" by (simp add: subtract_zero_iff)
    then have "length_pt ?d = 0" by (simp add: length_pt_zero_iff)
    then show ?thesis using True Cons.prems(2) by (simp add: Let_def)
  next
    case False
    then have "\<exists>j \<in> set is. j \<noteq> self \<and> position (boids ! j) = position this"
      using Cons.prems(1) by auto
    then have "avoidanceLoop self this boids is acc' = Inl NaN_velocity" for acc'
      using Cons.IH Cons.prems(2) by blast
    then show ?thesis by (simp add: Let_def)
  qed
qed

lemma updateVelocity_Inl:
  assumes "j < length bs" and "j \<noteq> i" and "position (bs ! j) = position (bs ! i)"
    and "0 < avoidRadius (bs ! i)"
  shows "updateVelocity i bs obs r = Inl NaN_velocity"
proof -
  have "\<exists>j \<in> set [0..<length bs]. j \<noteq> i \<and> position (bs ! j) = position (bs ! i)"
    using assms(1-3) by auto
  then have "avoidanceLoop i (bs ! i) bs [0..<length bs] zero_pt = Inl NaN_velocity"
    using assms(4) by (rule avoidanceLoop_Inl)
  then show ?thesis by (simp add: updateVelocity_def getAvoidanceVector_def Let_def)
qed

lemma reactLoop_Inl:
  assumes "i \<in> set is" and "i < length bs" and "j < length bs" and "j \<noteq> i"
    and "position (bs ! j) = position (bs ! i)" and "0 < avoidRadius (bs ! i)"
  shows "reactLoop is bs obs rnd = Inl NaN_velocity"
  using assms
proof (induction "is" arbitrary: bs)
  case Nil
  then show ?case by simp
next
  case (Cons k "is")
  show ?case
  proof (cases "updateVelocity k bs obs (rnd k)")
    case (Inl e)
    then show ?thesis by (cases e) simp
  next
    case (Inr b)
    have "k \<noteq> i"
    proof
      assume "k = i"
      then have "updateVelocity k bs obs (rnd k) = Inl NaN_velocity"
        using Cons.prems by (simp add: updateVelocity_Inl)
      then show False using Inr by simp
    qed
    then have i: "i \<in> set is" using Cons.prems(1) by simp
    have p: "position (bs[k := b] ! m) = position (bs ! m)" if "m < length bs" for m
      using that updateVelocity_position [OF Inr] by (cases "m = k") simp_all
    have a: "avoidRadius (bs[k := b] ! m) = avoidRadius (bs ! m)" if "m < length bs" for m
      using that updateVelocity_avoidRadius [OF Inr] by (cases "m = k") simp_all
    have "reactLoop is (bs[k := b]) obs rnd = Inl NaN_velocity"
      using i Cons.prems(2-6) by (intro Cons.IH [of "bs[k := b]"]) (simp_all add: p a)
    then show ?thesis using Inr by simp
  qed
qed

lemma onFrame_nan:
  "\<not> nan_free boids \<Longrightarrow> onFrame view boids obstacles rnd = Inl NaN_velocity"
proof -
  assume "\<not> nan_free boids"
  then obtain i j where "i < length boids" "j < length boids" "j \<noteq> i"
    "position (boids ! j) = position (boids ! i)" "0 < avoidRadius (boids ! i)"
    by (auto simp add: nan_free_def not_le)
  then have "reactLoop [0..<length boids] boids obstacles rnd = Inl NaN_velocity"
    by (intro reactLoop_Inl [of i _ _ j]) simp_all
  then show ?thesis by (simp add: onFrame_def)
qed







section \<open>One frame\<close>









section \<open>Construction\<close>

text \<open>
  C9. The constructor checks nothing and accepts every configuration. A
  count that is zero or negative gives a runner without boids, and the radii are stored
  as they are given, negative ones too.
\<close>

theorem Runner_accepts:
  "\<exists>r. Runner params view rndPos rndAngle = Inr r \<and>
        length (r_boids r) = nat (numBoids params) \<and>
        (numBoids params \<le> 0 \<longrightarrow> r_boids r = []) \<and>
        (\<forall>b \<in> set (r_boids r).
           followRadius b = pr_followRadius (p_perceptionRadii params) \<and>
           avoidRadius b = pr_avoidRadius (p_perceptionRadii params)) \<and>
        r_obstacles r = [] \<and>
        r_obstacleAffectRadius r = p_obstacleAffectRadius params"
  by (simp add: Runner_def Boid_def Let_def)

theorem Runner_accepts_witness:
  "numBoids negativeParameters \<le> 0 \<and>
   (\<exists>r. Runner negativeParameters view0 rnd0 angle0 = Inr r \<and> r_boids r = [] \<and>
         r_obstacleAffectRadius r = - 100) \<and>
   (\<exists>r. Runner (negativeParameters\<lparr>numBoids := 1\<rparr>) view0 rnd0 angle0 = Inr r \<and>
         followRadius (r_boids r ! 0) = - 100 \<and> avoidRadius (r_boids r ! 0) = - 30)"
proof -
  have n: "numBoids negativeParameters \<le> 0" by (simp add: negativeParameters_def)
  from Runner_accepts [of negativeParameters view0 rnd0 angle0] n
  have a: "\<exists>r. Runner negativeParameters view0 rnd0 angle0 = Inr r \<and> r_boids r = [] \<and>
         r_obstacleAffectRadius r = - 100"
    by (auto simp add: negativeParameters_def)
  from Runner_accepts [of "negativeParameters\<lparr>numBoids := 1\<rparr>" view0 rnd0 angle0]
  obtain r where r: "Runner (negativeParameters\<lparr>numBoids := 1\<rparr>) view0 rnd0 angle0 = Inr r"
    and l: "length (r_boids r) = 1"
    and b: "\<forall>b \<in> set (r_boids r).
           followRadius b = pr_followRadius (p_perceptionRadii (negativeParameters\<lparr>numBoids := 1\<rparr>)) \<and>
           avoidRadius b = pr_avoidRadius (p_perceptionRadii (negativeParameters\<lparr>numBoids := 1\<rparr>))"
    by auto
  from l have "r_boids r ! 0 \<in> set (r_boids r)" by simp
  then have "followRadius (r_boids r ! 0) = - 100 \<and> avoidRadius (r_boids r ! 0) = - 30"
    using b by (simp add: negativeParameters_def)
  then show ?thesis using n a r by blast
qed

theorem Runner_negative_accepted:
  "Runner negativeParameters view0 rnd0 angle0 =
     Inr \<lparr>r_boids = [], r_obstacles = [], r_obstacleAffectRadius = - 100\<rparr>"
  by (simp add: Runner_def negativeParameters_def Let_def)

end
